theory Spec2Isabelle
  imports Main "HOL-Library.Word"
begin

section \<open>Strings\<close>

text \<open>
  A JavaScript string is a sequence of UTF-16 code units. The regular expressions of the
  source carry no \<open>u\<close> flag, so they work on code units, and every character that
  \<open>String.prototype.trim\<close> removes is a single code unit; a list of 16-bit words is
  therefore the string as the program sees it. \<open>lit\<close> writes an ASCII literal.
\<close>

type_synonym code_unit = "16 word"
type_synonym js_string = "code_unit list"

definition lit :: "string \<Rightarrow> js_string" where
  "lit s = map (\<lambda>c. of_nat (of_char c)) s"

definition slash :: code_unit where
  "slash = 0x2F"

text \<open>
  The code units that \<open>trim\<close> strips: ECMAScript's WhiteSpace (TAB, VT, FF, ZWNBSP and
  the Unicode category Zs) and LineTerminator (LF, CR, LS, PS).
\<close>

definition isWhiteSpace :: "code_unit \<Rightarrow> bool" where
  "isWhiteSpace c \<longleftrightarrow>
     c \<in> {0x0009, 0x000A, 0x000B, 0x000C, 0x000D, 0x0020, 0x00A0, 0x1680,
          0x2000, 0x2001, 0x2002, 0x2003, 0x2004, 0x2005, 0x2006, 0x2007,
          0x2008, 0x2009, 0x200A, 0x2028, 0x2029, 0x202F, 0x205F, 0x3000, 0xFEFF}"

definition trim :: "js_string \<Rightarrow> js_string" where
  "trim s = rev (dropWhile isWhiteSpace (rev (dropWhile isWhiteSpace s)))"

definition startsWith :: "js_string \<Rightarrow> js_string \<Rightarrow> bool" where
  "startsWith s p \<longleftrightarrow> take (length p) s = p"

definition endsWith :: "js_string \<Rightarrow> js_string \<Rightarrow> bool" where
  "endsWith s p \<longleftrightarrow> length p \<le> length s \<and> drop (length s - length p) s = p"

text \<open>\<open>s.replace(/^\/+/, "")\<close>: the longest run of slashes at the start is removed.\<close>

definition stripLeadingSlashes :: "js_string \<Rightarrow> js_string" where
  "stripLeadingSlashes s = dropWhile (\<lambda>c. c = slash) s"

text \<open>A natural number in a template literal or as a property key: its decimal digits.\<close>

fun decimal :: "nat \<Rightarrow> js_string" where
  "decimal n = (if n < 10 then [of_nat (48 + n)] else decimal (n div 10) @ [of_nat (48 + n mod 10)])"

declare decimal.simps [simp del]

section \<open>Errors and JSON values\<close>

text \<open>
  What a \<open>throw\<close> or a rejected promise carries: an instance of \<open>Error\<close> with its
  message (\<open>SyntaxError\<close> and \<open>TypeError\<close> are such instances), or any other value.
\<close>

datatype thrown = Error js_string | NotAnError js_string

text \<open>
  What \<open>JSON.parse\<close> and \<open>response.json()\<close> can give: any JSON value. A number is kept
  as the text that \<open>String(n)\<close> writes for it, which is all the source can observe of a
  number (\<open>0\<close> and \<open>-0\<close> are both written \<open>0\<close>, and both are falsy). An object is the
  list of its own properties in the order JavaScript enumerates them. The source's \<open>as\<close>
  casts check nothing at run time, so a value read from a response or from the store is a
  \<open>json\<close>, whatever type the source gives it.
\<close>

datatype json =
    JNull
  | JBool bool
  | JNumber js_string
  | JString js_string
  | JArray "json list"
  | JObject "(js_string \<times> json) list"

text \<open>\<open>!v\<close> is false exactly of the truthy values.\<close>

fun truthy :: "json \<Rightarrow> bool" where
  "truthy JNull = False"
| "truthy (JBool b) = b"
| "truthy (JNumber t) = (t \<noteq> lit ''0'')"
| "truthy (JString s) = (s \<noteq> [])"
| "truthy (JArray xs) = True"
| "truthy (JObject ps) = True"

text \<open>
  Property reads, for the keys the source reads (\<open>id\<close>, \<open>name\<close>, \<open>message\<close>), which no
  prototype defines: an object gives its own property or \<open>undefined\<close> (\<open>None\<close>), any
  other value but \<open>null\<close> gives \<open>undefined\<close>. \<open>v?.key\<close> gives \<open>undefined\<close> on \<open>null\<close>;
  \<open>v.key\<close> throws a \<open>TypeError\<close> there.
\<close>

fun optionalProperty :: "json \<Rightarrow> js_string \<Rightarrow> json option" where
  "optionalProperty (JObject ps) key = map_of ps key"
| "optionalProperty v key = None"

definition readProperty :: "json \<Rightarrow> js_string \<Rightarrow> thrown + json option" where
  "readProperty v key =
     (if v = JNull
      then Inl (Error (lit ''Cannot read properties of null (reading '' @ [0x27] @ key @ [0x27] @ lit '')''))
      else Inr (optionalProperty v key))"

text \<open>
  \<open>ToString\<close>, as a template literal and \<open>new Error(m)\<close> apply it. An array is joined with
  commas, \<open>null\<close> elements giving the empty string. A parsed object has no callable
  property of its own: with an own \<open>toString\<close> property the conversion finds nothing to
  call and throws a \<open>TypeError\<close>, without one it is \<open>Object.prototype.toString\<close>.
\<close>

fun ToString :: "json \<Rightarrow> thrown + js_string"
  and join :: "json list \<Rightarrow> thrown + js_string" where
  "ToString JNull = Inr (lit ''null'')"
| "ToString (JBool b) = Inr (if b then lit ''true'' else lit ''false'')"
| "ToString (JNumber t) = Inr t"
| "ToString (JString s) = Inr s"
| "ToString (JArray xs) = join xs"
| "ToString (JObject ps) =
     (if lit ''toString'' \<in> set (map fst ps)
      then Inl (Error (lit ''Cannot convert object to primitive value''))
      else Inr (lit ''[object Object]''))"
| "join [] = Inr []"
| "join (x # xs) =
     (case (if x = JNull then Inr [] else ToString x) of
        Inl err \<Rightarrow> Inl err
      | Inr a \<Rightarrow>
          if xs = [] then Inr a
          else (case join xs of Inl err \<Rightarrow> Inl err | Inr b \<Rightarrow> Inr (a @ lit '','' @ b)))"

text \<open>A value that may be \<open>undefined\<close>, inside a template literal.\<close>

fun templateString :: "json option \<Rightarrow> thrown + js_string" where
  "templateString None = Inr (lit ''undefined'')"
| "templateString (Some v) = ToString v"

text \<open>
  \<open>for (const x of v)\<close>: an array gives its elements, a string its code points (a
  surrogate pair is one element), any other value is not iterable.
\<close>

fun codePoints :: "js_string \<Rightarrow> js_string list" where
  "codePoints [] = []"
| "codePoints [c] = [[c]]"
| "codePoints (c # d # cs) =
     (if 0xD800 \<le> c \<and> c \<le> 0xDBFF \<and> 0xDC00 \<le> d \<and> d \<le> 0xDFFF
      then [c, d] # codePoints cs
      else [c] # codePoints (d # cs))"

fun iterate :: "json \<Rightarrow> thrown + json list" where
  "iterate (JArray xs) = Inr xs"
| "iterate (JString s) = Inr (map JString (codePoints s))"
| "iterate v = Inl (Error (lit ''metadata is not iterable''))"

text \<open>
  \<open>{ ...v, key: w }\<close>: the own enumerable properties of \<open>v\<close> (an object's properties, an
  array's elements and a string's code units under their indices, nothing for any other
  value), then \<open>key\<close>, which replaces a property of that name where it stands or comes
  last.
\<close>

fun ownEnumerable :: "json \<Rightarrow> (js_string \<times> json) list" where
  "ownEnumerable (JObject ps) = ps"
| "ownEnumerable (JArray xs) = zip (map decimal [0..<length xs]) xs"
| "ownEnumerable (JString s) = zip (map decimal [0..<length s]) (map (\<lambda>c. JString [c]) s)"
| "ownEnumerable v = []"

fun setProperty :: "js_string \<Rightarrow> json \<Rightarrow> (js_string \<times> json) list \<Rightarrow> (js_string \<times> json) list" where
  "setProperty key w [] = [(key, w)]"
| "setProperty key w (p # ps) = (if fst p = key then (key, w) # ps else p # setProperty key w ps)"

section \<open>Data model (src/api/wordpress.ts, src/storage/sites.ts)\<close>

text \<open>
  Interfaces are records, \<open>extends\<close> is record extension, an optional field is an
  \<open>option\<close>. Field names that several interfaces share (\<open>id\<close>, \<open>name\<close>,
  \<open>capabilities\<close>, \<open>username\<close>, \<open>applicationPassword\<close>) are written with the
  record's name in front. \<open>SiteMetadata\<close> narrows \<open>restBase\<close> to a string; the
  extension keeps the inherited optional field and the store always writes \<open>Some\<close>.
  The source casts the body of the \<open>users/me\<close> response to \<open>WPUser\<close> without a check;
  what \<open>ValidatedSite\<close> carries as \<open>user\<close> is therefore the parsed body as it is, a
  JSON value.
\<close>

datatype AuthStrategy = ApplicationPassword

record SiteCredentials =
  username :: js_string
  applicationPassword :: js_string
  authStrategy :: AuthStrategy

record SiteConnection =
  baseUrl :: js_string
  restBase :: "js_string option"

record SiteCapabilities =
  categories :: bool
  tags :: bool
  media :: bool

record ValidatedSite =
  capabilities :: SiteCapabilities
  user :: "json option"

record SiteMetadata = SiteConnection +
  id :: js_string
  name :: js_string
  capabilities :: "SiteCapabilities option"
  validatedAt :: "js_string option"

record SiteProfile = SiteMetadata +
  credentials :: SiteCredentials

record SiteInput = SiteConnection +
  id :: "js_string option"
  name :: js_string
  username :: js_string
  applicationPassword :: js_string

section \<open>The transport\<close>

text \<open>
  A \<open>Response\<close> as the source reads it: \<open>ok\<close>, \<open>status\<close>, \<open>statusText\<close>, and
  \<open>response.json()\<close>, which either throws or gives the parsed body, any JSON value.
  A fetcher may reject instead of answering. The request's \<open>httpMethod\<close> is the
  \<open>method\<close> of the source's \<open>RequestInit\<close>.
\<close>

record Response =
  ok :: bool
  status :: nat
  statusText :: js_string
  json :: "thrown + json"

record RequestInit =
  httpMethod :: js_string
  Authorization :: js_string
  Accept :: js_string

type_synonym Fetcher = "js_string \<Rightarrow> RequestInit \<Rightarrow> thrown + Response"

text \<open>The toast that \<open>validateSiteConnection\<close> shows and then rewrites.\<close>

datatype ToastStyle = Animated | Success | Failure

record Toast =
  style :: ToastStyle
  title :: js_string
  message :: "js_string option"

text \<open>
  What the functions take from their surroundings: the ambient \<open>fetch\<close>, the value the
  next \<open>randomUUID()\<close> gives, the text of \<open>new Date().toISOString()\<close>, and Node's
  \<open>Buffer.from(s, "utf8").toString("base64")\<close>, a library function taken as a
  parameter.
\<close>

record World =
  fetch :: Fetcher
  randomUUID :: js_string
  now_toISOString :: js_string
  base64 :: "js_string \<Rightarrow> js_string"

section \<open>URL utilities and REST client (src/api/wordpress.ts)\<close>

text \<open>
  A parameter or local that the source names like a field has a short name here:
  \<open>url\<close> and \<open>base\<close> for \<open>baseUrl\<close>, \<open>rest\<close> for \<open>restBase\<close>, \<open>creds\<close> for
  \<open>credentials\<close>, \<open>caps\<close> for \<open>capabilities\<close>, \<open>ident\<close> for \<open>id\<close>, \<open>usr\<close> for
  \<open>user\<close>, \<open>msg\<close> for \<open>message\<close>, \<open>err\<close> for \<open>error\<close>.
\<close>

text \<open>\<open>baseUrl.replace(/\/$/, "")\<close>: one slash at the very end is removed, if there is one.\<close>

definition normalizeBaseUrl :: "js_string \<Rightarrow> js_string" where
  "normalizeBaseUrl url = (if endsWith url (lit ''/'') then butlast url else url)"

text \<open>
  The parameter is optional: \<open>None\<close> is \<open>undefined\<close>. \<open>!restBase\<close> holds of
  \<open>undefined\<close> and of the empty string. Both arms of the last conditional are kept as
  the source has them.
\<close>

definition normalizeRestBase :: "js_string option \<Rightarrow> js_string" where
  "normalizeRestBase rest =
     (case rest of
        None \<Rightarrow> lit ''/wp-json/wp/v2/''
      | Some r \<Rightarrow>
          if r = [] \<or> trim r = [] then lit ''/wp-json/wp/v2/''
          else
            let trimmed = stripLeadingSlashes r;
                withTrailingSlash = (if endsWith trimmed (lit ''/'') then trimmed else trimmed @ lit ''/'')
            in if startsWith withTrailingSlash (lit ''wp-json'')
               then lit ''/'' @ withTrailingSlash
               else lit ''/'' @ withTrailingSlash)"

definition buildApiUrl :: "SiteConnection \<Rightarrow> js_string \<Rightarrow> js_string" where
  "buildApiUrl connection route =
     (let base = normalizeBaseUrl (baseUrl connection);
          rest = normalizeRestBase (restBase connection);
          normalizedRoute = stripLeadingSlashes route
      in base @ rest @ normalizedRoute)"

definition buildAuthHeader :: "(js_string \<Rightarrow> js_string) \<Rightarrow> SiteCredentials \<Rightarrow> js_string" where
  "buildAuthHeader b64 creds =
     (let token = b64 (SiteCredentials.username creds @ lit '':'' @ SiteCredentials.applicationPassword creds)
      in lit ''Basic '' @ token)"

text \<open>
  \<open>extractErrorMessage\<close>: the body's \<open>message\<close> when \<open>json()\<close> gives a body and
  \<open>data?.message\<close> is truthy; the status line otherwise, also when \<open>json()\<close> throws. The
  message is returned as it is, a string or not.
\<close>

definition extractErrorMessage :: "Response \<Rightarrow> json" where
  "extractErrorMessage response =
     (let statusLine = JString (decimal (status response) @ lit '' '' @ statusText response)
      in case json response of
           Inl err \<Rightarrow> statusLine
         | Inr data \<Rightarrow>
             (case optionalProperty data (lit ''message'') of
                None \<Rightarrow> statusLine
              | Some m \<Rightarrow> if truthy m then m else statusLine))"

text \<open>
  \<open>fetchJson\<close>: a rejection of the fetcher passes through; a response that is not \<open>ok\<close>
  throws \<open>new Error(message)\<close>, whose constructor converts the message to a string (and
  throws where that conversion does); an \<open>ok\<close> response gives what \<open>json()\<close> gives.
\<close>

definition fetchJson ::
  "(js_string \<Rightarrow> js_string) \<Rightarrow> js_string \<Rightarrow> SiteCredentials \<Rightarrow> Fetcher \<Rightarrow> thrown + json" where
  "fetchJson b64 url creds fetcher =
     (case fetcher url \<lparr>httpMethod = lit ''GET'',
                         Authorization = buildAuthHeader b64 creds,
                         Accept = lit ''application/json''\<rparr> of
        Inl err \<Rightarrow> Inl err
      | Inr response \<Rightarrow>
          if \<not> ok response
          then (case ToString (extractErrorMessage response) of
                  Inl err \<Rightarrow> Inl err
                | Inr msg \<Rightarrow> Inl (Error msg))
          else json response)"

text \<open>
  \<open>validateSiteConnection\<close> returns what the promise settles to, and the toast as the
  function leaves it. \<open>attempt\<close> is the \<open>try\<close> block up to its \<open>return\<close>: the fetch,
  then the read of \<open>user.name\<close> and its conversion inside the template literal, each of
  which can throw. The \<open>catch\<close> block rewrites the toast and throws the same error again.
\<close>

definition validateSiteConnection ::
  "(js_string \<Rightarrow> js_string) \<Rightarrow> SiteConnection \<Rightarrow> SiteCredentials \<Rightarrow> Fetcher
     \<Rightarrow> (thrown + ValidatedSite) \<times> Toast" where
  "validateSiteConnection b64 connection creds fetcher =
     (let validationToast =
            \<lparr>style = Animated, title = lit ''Validating site credentials'', message = None\<rparr>;
          url = buildApiUrl connection (lit ''users/me'');
          attempt =
            (case fetchJson b64 url creds fetcher of
               Inl err \<Rightarrow> Inl err
             | Inr usr \<Rightarrow>
                 (case readProperty usr (lit ''name'') of
                    Inl err \<Rightarrow> Inl err
                  | Inr nm \<Rightarrow>
                      (case templateString nm of
                         Inl err \<Rightarrow> Inl err
                       | Inr text \<Rightarrow> Inr (usr, text))))
      in case attempt of
           Inr (usr, text) \<Rightarrow>
             (let caps = \<lparr>categories = True, tags = True, media = True\<rparr>
              in (Inr \<lparr>ValidatedSite.capabilities = caps, user = Some usr\<rparr>,
                  validationToast\<lparr>style := Success,
                                  title := lit ''Connection validated'',
                                  message := Some (lit ''Authenticated as '' @ text)\<rparr>))
         | Inl err \<Rightarrow>
             (let msg = (case err of Error m \<Rightarrow> m
                                   | NotAnError v \<Rightarrow> lit ''Unable to validate credentials'')
              in (Inl err,
                  validationToast\<lparr>style := Failure,
                                  title := lit ''Validation failed'',
                                  message := Some msg\<rparr>)))"

section \<open>The store (src/storage/sites.ts)\<close>

text \<open>
  \<open>LocalStorage\<close> keeps texts under keys. A text is represented by what
  \<open>JSON.parse\<close> makes of it: \<open>Malformed t\<close> is a text \<open>t\<close> on which \<open>JSON.parse\<close>
  throws (the empty text is one), \<open>Stringified v\<close> is a text that parses to \<open>v\<close>, as
  \<open>JSON.stringify(v)\<close> does.

  The store is modelled twice. In the first model, used for the operations that write, the
  texts are those that the program itself writes, or malformed ones: the item under
  \<open>SITE_INDEX_KEY\<close> parses to an array of \<open>SiteMetadata\<close>, the items under the secret
  keys to \<open>SiteCredentials\<close>. No key made of \<open>SITE_SECRET_PREFIX\<close> and an id is
  \<open>SITE_INDEX_KEY\<close>, so the two do not overlap. The second model, further down, is the
  listing over a store that holds any text under any key.
  The host's store answers every call: a \<open>getItem\<close>, \<open>setItem\<close> or
  \<open>removeItem\<close> that rejects is outside the model, as is a \<open>showToast\<close> that does.
\<close>

datatype 'a json_text = Malformed js_string | Stringified 'a

definition JSON_stringify :: "'a \<Rightarrow> 'a json_text" where
  "JSON_stringify v = Stringified v"

fun JSON_parse :: "'a json_text \<Rightarrow> thrown + 'a" where
  "JSON_parse (Malformed t) = Inl (Error (lit ''Unexpected token''))"
| "JSON_parse (Stringified v) = Inr v"

text \<open>\<open>!data\<close> for a text that is there: only the empty string is falsy.\<close>

fun falsy :: "'a json_text \<Rightarrow> bool" where
  "falsy (Malformed t) = (t = [])"
| "falsy (Stringified v) = False"

definition SITE_INDEX_KEY :: js_string where
  "SITE_INDEX_KEY = lit ''site-index''"

definition SITE_SECRET_PREFIX :: js_string where
  "SITE_SECRET_PREFIX = lit ''site-secret-''"

record LocalStorage =
  index_item :: "SiteMetadata list json_text option"
  secret_items :: "js_string \<rightharpoonup> SiteCredentials json_text"

definition loadSiteMetadata :: "LocalStorage \<Rightarrow> SiteMetadata list" where
  "loadSiteMetadata s =
     (case index_item s of
        None \<Rightarrow> []
      | Some data \<Rightarrow>
          if falsy data then []
          else (case JSON_parse data of Inr metadata \<Rightarrow> metadata | Inl err \<Rightarrow> []))"

definition loadCredentials :: "js_string \<Rightarrow> LocalStorage \<Rightarrow> SiteCredentials option" where
  "loadCredentials ident s =
     (case secret_items s (SITE_SECRET_PREFIX @ ident) of
        None \<Rightarrow> None
      | Some data \<Rightarrow>
          if falsy data then None
          else (case JSON_parse data of Inr creds \<Rightarrow> Some creds | Inl err \<Rightarrow> None))"

text \<open>\<open>findIndex\<close> gives the first index whose element passes, or -1.\<close>

fun findIndex :: "('a \<Rightarrow> bool) \<Rightarrow> 'a list \<Rightarrow> int" where
  "findIndex P [] = - 1"
| "findIndex P (x # xs) =
     (if P x then 0 else (let i = findIndex P xs in if i = - 1 then - 1 else i + 1))"

definition saveSiteMetadata :: "SiteMetadata \<Rightarrow> LocalStorage \<Rightarrow> LocalStorage" where
  "saveSiteMetadata entry s =
     (let metadata = loadSiteMetadata s;
          existingIndex = findIndex (\<lambda>site. SiteMetadata.id site = SiteMetadata.id entry) metadata;
          metadata' = (if existingIndex = - 1 then metadata @ [entry]
                       else metadata[nat existingIndex := entry])
      in s\<lparr>index_item := Some (JSON_stringify metadata')\<rparr>)"

definition saveCredentials :: "js_string \<Rightarrow> SiteCredentials \<Rightarrow> LocalStorage \<Rightarrow> LocalStorage" where
  "saveCredentials ident creds s =
     s\<lparr>secret_items := (secret_items s)(SITE_SECRET_PREFIX @ ident \<mapsto> JSON_stringify creds)\<rparr>"

text \<open>\<open>{ ...site, credentials }\<close>\<close>

definition withCredentials :: "SiteMetadata \<Rightarrow> SiteCredentials \<Rightarrow> SiteProfile" where
  "withCredentials site creds = SiteMetadata.extend site (SiteProfile.fields creds)"

text \<open>The loop of \<open>getSites\<close>: \<open>sites\<close> is the array the loop pushes to.\<close>

fun getSites_loop :: "LocalStorage \<Rightarrow> SiteMetadata list \<Rightarrow> SiteProfile list \<Rightarrow> SiteProfile list" where
  "getSites_loop s [] sites = sites"
| "getSites_loop s (site # rest) sites =
     (case loadCredentials (SiteMetadata.id site) s of
        None \<Rightarrow> getSites_loop s rest sites
      | Some creds \<Rightarrow> getSites_loop s rest (sites @ [withCredentials site creds]))"

definition getSites :: "LocalStorage \<Rightarrow> SiteProfile list" where
  "getSites s = (let metadata = loadSiteMetadata s in getSites_loop s metadata [])"


text \<open>
  \<open>upsertSite\<close> returns what its promise settles to, and the store as it leaves it. When
  \<open>validateSiteConnection\<close> throws, the \<open>await\<close> throws and nothing after it runs.
\<close>

definition upsertSite ::
  "World \<Rightarrow> SiteInput \<Rightarrow> LocalStorage \<Rightarrow> (thrown + SiteProfile) \<times> LocalStorage" where
  "upsertSite w input s =
     (let ident = (case SiteInput.id input of Some i \<Rightarrow> i | None \<Rightarrow> randomUUID w);
          normalizedBase = normalizeBaseUrl (baseUrl input);
          normalizedRest = normalizeRestBase (restBase input);
          creds = \<lparr>SiteCredentials.username = SiteInput.username input,
                   SiteCredentials.applicationPassword = SiteInput.applicationPassword input,
                   authStrategy = ApplicationPassword\<rparr>
      in case fst (validateSiteConnection (base64 w)
                     \<lparr>baseUrl = normalizedBase, restBase = Some normalizedRest\<rparr> creds (fetch w)) of
           Inl err \<Rightarrow> (Inl err, s)
         | Inr validation \<Rightarrow>
             (let metadataEntry =
                    \<lparr>baseUrl = normalizedBase,
                     restBase = Some normalizedRest,
                     SiteMetadata.id = ident,
                     SiteMetadata.name = SiteInput.name input,
                     SiteMetadata.capabilities = Some (ValidatedSite.capabilities validation),
                     validatedAt = Some (now_toISOString w)\<rparr>;
                  s1 = saveSiteMetadata metadataEntry s;
                  s2 = saveCredentials ident creds s1
              in (Inr (withCredentials metadataEntry creds), s2)))"


section \<open>The listing over any stored text (src/storage/sites.ts)\<close>

text \<open>
  The store as the host has it: one map from keys to texts, each text malformed or
  parsing to some JSON value. \<open>loadSiteMetadata\<close>, \<open>loadCredentials\<close> and \<open>getSites\<close>
  are the source's functions again, with no cast believed: the parsed index is whatever
  it is, \<open>site.id\<close> is a property read that throws on \<open>null\<close> and may give
  \<open>undefined\<close> or a value that is no string, the key is the template literal
  \<open>`${SITE_SECRET_PREFIX}${id}`\<close>, and \<open>!credentials\<close> is JavaScript's test.
\<close>

type_synonym RawStorage = "js_string \<rightharpoonup> json json_text"

definition loadSiteMetadata_raw :: "RawStorage \<Rightarrow> json" where
  "loadSiteMetadata_raw s =
     (case s SITE_INDEX_KEY of
        None \<Rightarrow> JArray []
      | Some data \<Rightarrow>
          if falsy data then JArray []
          else (case JSON_parse data of Inr metadata \<Rightarrow> metadata | Inl err \<Rightarrow> JArray []))"

definition loadCredentials_raw :: "json option \<Rightarrow> RawStorage \<Rightarrow> thrown + json option" where
  "loadCredentials_raw ident s =
     (case templateString ident of
        Inl err \<Rightarrow> Inl err
      | Inr text \<Rightarrow>
          (case s (SITE_SECRET_PREFIX @ text) of
             None \<Rightarrow> Inr None
           | Some data \<Rightarrow>
               if falsy data then Inr None
               else (case JSON_parse data of Inr creds \<Rightarrow> Inr (Some creds) | Inl err \<Rightarrow> Inr None)))"

text \<open>\<open>{ ...site, credentials }\<close>\<close>

definition withCredentials_raw :: "json \<Rightarrow> json \<Rightarrow> json" where
  "withCredentials_raw site creds = JObject (setProperty (lit ''credentials'') creds (ownEnumerable site))"

fun getSites_raw_loop :: "RawStorage \<Rightarrow> json list \<Rightarrow> json list \<Rightarrow> thrown + json list" where
  "getSites_raw_loop s [] sites = Inr sites"
| "getSites_raw_loop s (site # rest) sites =
     (case readProperty site (lit ''id'') of
        Inl err \<Rightarrow> Inl err
      | Inr ident \<Rightarrow>
          (case loadCredentials_raw ident s of
             Inl err \<Rightarrow> Inl err
           | Inr None \<Rightarrow> getSites_raw_loop s rest sites
           | Inr (Some creds) \<Rightarrow>
               if \<not> truthy creds then getSites_raw_loop s rest sites
               else getSites_raw_loop s rest (sites @ [withCredentials_raw site creds])))"

definition getSites_raw :: "RawStorage \<Rightarrow> thrown + json list" where
  "getSites_raw s =
     (let metadata = loadSiteMetadata_raw s
      in case iterate metadata of
           Inl err \<Rightarrow> Inl err
         | Inr entries \<Rightarrow> getSites_raw_loop s entries [])"

text \<open>
  The first model inside the second: the JSON values that the program's own records are
  written as, and the store of the first model as a store of texts.
\<close>

definition json_of_capabilities :: "SiteCapabilities \<Rightarrow> json" where
  "json_of_capabilities c =
     JObject [(lit ''categories'', JBool (categories c)), (lit ''tags'', JBool (tags c)),
              (lit ''media'', JBool (media c))]"

definition json_of_credentials :: "SiteCredentials \<Rightarrow> json" where
  "json_of_credentials c =
     JObject [(lit ''username'', JString (SiteCredentials.username c)),
              (lit ''applicationPassword'', JString (SiteCredentials.applicationPassword c)),
              (lit ''authStrategy'',
                 (case authStrategy c of ApplicationPassword \<Rightarrow> JString (lit ''application-password'')))]"

definition json_of_metadata :: "SiteMetadata \<Rightarrow> json" where
  "json_of_metadata m =
     JObject ([(lit ''id'', JString (SiteMetadata.id m)),
               (lit ''name'', JString (SiteMetadata.name m)),
               (lit ''baseUrl'', JString (baseUrl m))]
              @ (case restBase m of None \<Rightarrow> [] | Some r \<Rightarrow> [(lit ''restBase'', JString r)])
              @ (case SiteMetadata.capabilities m of
                   None \<Rightarrow> [] | Some c \<Rightarrow> [(lit ''capabilities'', json_of_capabilities c)])
              @ (case validatedAt m of None \<Rightarrow> [] | Some t \<Rightarrow> [(lit ''validatedAt'', JString t)]))"

definition json_of_profile :: "SiteProfile \<Rightarrow> json" where
  "json_of_profile p =
     withCredentials_raw (json_of_metadata (SiteMetadata.truncate p)) (json_of_credentials (credentials p))"

definition raw_of :: "LocalStorage \<Rightarrow> RawStorage" where
  "raw_of s key =
     (if key = SITE_INDEX_KEY
      then map_option (map_json_text (\<lambda>metadata. JArray (map json_of_metadata metadata))) (index_item s)
      else map_option (map_json_text json_of_credentials) (secret_items s key))"

section \<open>The rest base as the specification words it\<close>

text \<open>
  The specification's algorithm, step by step: an input that is absent, empty or made of
  white space only gives the default; otherwise all leading slashes are stripped, the
  string is given exactly one trailing slash, then exactly one leading slash.
\<close>

definition whitespaceOnly :: "js_string \<Rightarrow> bool" where
  "whitespaceOnly s \<longleftrightarrow> list_all isWhiteSpace s"

definition slashesOnly :: "js_string \<Rightarrow> bool" where
  "slashesOnly s \<longleftrightarrow> list_all (\<lambda>c. c = slash) s"

definition exactlyOneTrailingSlash :: "js_string \<Rightarrow> js_string" where
  "exactlyOneTrailingSlash s = rev (dropWhile (\<lambda>c. c = slash) (rev s)) @ [slash]"

definition exactlyOneLeadingSlash :: "js_string \<Rightarrow> js_string" where
  "exactlyOneLeadingSlash s = slash # dropWhile (\<lambda>c. c = slash) s"

definition normalizeRestBase_reference :: "js_string option \<Rightarrow> js_string" where
  "normalizeRestBase_reference rest =
     (case rest of
        None \<Rightarrow> lit ''/wp-json/wp/v2/''
      | Some r \<Rightarrow>
          if whitespaceOnly r then lit ''/wp-json/wp/v2/''
          else exactlyOneLeadingSlash (exactlyOneTrailingSlash (stripLeadingSlashes r)))"

text \<open>The trailing-slash step of the source: a slash is appended unless one ends the string.\<close>

definition appendSlashIfMissing :: "js_string \<Rightarrow> js_string" where
  "appendSlashIfMissing s = (if s \<noteq> [] \<and> last s = slash then s else s @ [slash])"

text \<open>
  The simplification the specification proposes: the same empty check, the same stripping
  and trailing-slash step, then a slash in front whatever the string starts with.
\<close>

definition normalizeRestBase_simplified :: "js_string option \<Rightarrow> js_string" where
  "normalizeRestBase_simplified rest =
     (case rest of
        None \<Rightarrow> lit ''/wp-json/wp/v2/''
      | Some r \<Rightarrow>
          if r = [] \<or> trim r = [] then lit ''/wp-json/wp/v2/''
          else
            let trimmed = stripLeadingSlashes r;
                withTrailingSlash = (if endsWith trimmed (lit ''/'') then trimmed else trimmed @ lit ''/'')
            in lit ''/'' @ withTrailingSlash)"

text \<open>
  The words of the specification for the listing. \<open>credentialRecord\<close> is what the
  credential record paired with an id parses to, when the record exists and parses as
  JSON. \<open>metadataObject\<close> holds of an object with a string \<open>id\<close>, and \<open>idOf\<close> is that
  id. An entry is \<open>listed\<close> when its record exists, parses, and parses to a truthy value.
\<close>

definition credentialRecord :: "RawStorage \<Rightarrow> js_string \<Rightarrow> json option" where
  "credentialRecord s ident =
     (case s (SITE_SECRET_PREFIX @ ident) of
        None \<Rightarrow> None
      | Some (Malformed t) \<Rightarrow> None
      | Some (Stringified v) \<Rightarrow> Some v)"

definition metadataObject :: "json \<Rightarrow> bool" where
  "metadataObject e =
     (case optionalProperty e (lit ''id'') of Some (JString i) \<Rightarrow> True | _ \<Rightarrow> False)"

definition idOf :: "json \<Rightarrow> js_string" where
  "idOf e = (case optionalProperty e (lit ''id'') of Some (JString i) \<Rightarrow> i | _ \<Rightarrow> [])"

definition listed :: "RawStorage \<Rightarrow> json \<Rightarrow> bool" where
  "listed s e = (case credentialRecord s (idOf e) of None \<Rightarrow> False | Some v \<Rightarrow> truthy v)"

section \<open>A worked example\<close>

text \<open>
  A site at \<open>https://x.com\<close> whose \<open>users/me\<close> accepts the user \<open>a\<close> with the
  application password \<open>b\<close>, answers 401 with a message to any other credentials and
  404 at any other address. The store holds two metadata entries, \<open>s1\<close> with its
  credential record and \<open>s2\<close> without one. \<open>exampleBase64\<close> encodes \<open>a:b\<close> as
  base64 does and sends any other text to one fixed other token. \<open>nullFetch\<close> answers
  every request with status 200 and the body \<open>null\<close>; \<open>namelessFetch\<close> with a user
  whose \<open>name\<close> is an object with a \<open>toString\<close> property.
\<close>

definition exampleUser :: json where
  "exampleUser =
     JObject [(lit ''id'', JNumber (lit ''1'')), (lit ''name'', JString (lit ''admin'')),
              (lit ''slug'', JString (lit ''admin''))]"

definition exampleBase64 :: "js_string \<Rightarrow> js_string" where
  "exampleBase64 s = (if s = lit ''a:b'' then lit ''YTpi'' else lit ''eDp5'')"

definition exampleFetch :: Fetcher where
  "exampleFetch url init =
     (if url = lit ''https://x.com/wp-json/wp/v2/users/me''
      then (if Authorization init = lit ''Basic YTpi''
            then Inr \<lparr>ok = True, status = 200, statusText = lit ''OK'', json = Inr exampleUser\<rparr>
            else Inr \<lparr>ok = False, status = 401, statusText = lit ''Unauthorized'',
                      json = Inr (JObject [(lit ''code'', JString (lit ''invalid_password'')),
                                           (lit ''message'', JString (lit ''Invalid password''))])\<rparr>)
      else Inr \<lparr>ok = False, status = 404, statusText = lit ''Not Found'',
                json = Inl (Error (lit ''Unexpected token''))\<rparr>)"

definition nullFetch :: Fetcher where
  "nullFetch url init = Inr \<lparr>ok = True, status = 200, statusText = lit ''OK'', json = Inr JNull\<rparr>"

definition namelessFetch :: Fetcher where
  "namelessFetch url init =
     Inr \<lparr>ok = True, status = 200, statusText = lit ''OK'',
          json = Inr (JObject [(lit ''name'', JObject [(lit ''toString'', JNumber (lit ''1''))])])\<rparr>"

definition exampleWorld :: World where
  "exampleWorld = \<lparr>fetch = exampleFetch, randomUUID = lit ''0b0e'',
                    now_toISOString = lit ''2024-01-01T00:00:00.000Z'', base64 = exampleBase64\<rparr>"

definition exampleInput :: "js_string option \<Rightarrow> js_string \<Rightarrow> SiteInput" where
  "exampleInput ident password =
     \<lparr>baseUrl = lit ''https://x.com/'', restBase = Some (lit ''wp-json/wp/v2''),
      SiteInput.id = ident, SiteInput.name = lit ''Blog'',
      SiteInput.username = lit ''a'', SiteInput.applicationPassword = password\<rparr>"

definition exampleCredentials :: "js_string \<Rightarrow> SiteCredentials" where
  "exampleCredentials password =
     \<lparr>SiteCredentials.username = lit ''a'', SiteCredentials.applicationPassword = password,
      authStrategy = ApplicationPassword\<rparr>"

definition exampleMetadata :: "js_string \<Rightarrow> js_string \<Rightarrow> SiteMetadata" where
  "exampleMetadata ident nm =
     \<lparr>baseUrl = lit ''https://x.com'', restBase = Some (lit ''/wp-json/wp/v2/''),
      SiteMetadata.id = ident, SiteMetadata.name = nm,
      SiteMetadata.capabilities = Some \<lparr>categories = True, tags = True, media = True\<rparr>,
      validatedAt = Some (lit ''2024-01-01T00:00:00.000Z'')\<rparr>"

definition exampleStorage :: LocalStorage where
  "exampleStorage =
     \<lparr>index_item = Some (Stringified [exampleMetadata (lit ''s1'') (lit ''Old''),
                                        exampleMetadata (lit ''s2'') (lit ''Orphan'')]),
      secret_items = [SITE_SECRET_PREFIX @ lit ''s1'' \<mapsto> Stringified (exampleCredentials (lit ''old''))]\<rparr>"

text \<open>
  A store of any texts: three entries in the index, \<open>s1\<close> with a credential record that
  parses to an object, \<open>s2\<close> with none, \<open>s3\<close> with the record \<open>null\<close>. Then a
  store with the one entry \<open>s3\<close> and its record \<open>null\<close>, and a store whose index is
  the text \<open>null\<close>.
\<close>

definition exampleEntry :: "js_string \<Rightarrow> json" where
  "exampleEntry ident = JObject [(lit ''id'', JString ident), (lit ''name'', JString (lit ''Blog''))]"

definition exampleRawStorage :: RawStorage where
  "exampleRawStorage =
     [SITE_INDEX_KEY \<mapsto>
        Stringified (JArray [exampleEntry (lit ''s1''), exampleEntry (lit ''s2''), exampleEntry (lit ''s3'')]),
      SITE_SECRET_PREFIX @ lit ''s1'' \<mapsto> Stringified (JObject [(lit ''username'', JString (lit ''a''))]),
      SITE_SECRET_PREFIX @ lit ''s3'' \<mapsto> Stringified JNull]"

definition nullRecordStorage :: RawStorage where
  "nullRecordStorage =
     [SITE_INDEX_KEY \<mapsto> Stringified (JArray [exampleEntry (lit ''s3'')]),
      SITE_SECRET_PREFIX @ lit ''s3'' \<mapsto> Stringified JNull]"

definition nullIndexStorage :: RawStorage where
  "nullIndexStorage = [SITE_INDEX_KEY \<mapsto> Stringified JNull]"

section \<open>Facts about strings\<close>

lemma lit_slash: "lit ''/'' = [slash]"
  by (simp add: lit_def slash_def)

lemma slash_not_white: "\<not> isWhiteSpace slash"
  by (simp add: isWhiteSpace_def slash_def)

lemma dropWhile_all_iff: "(\<forall>x \<in> set (dropWhile P s). P x) \<longleftrightarrow> (\<forall>x \<in> set s. P x)"
  by (induction s) auto

lemma trim_empty_iff: "trim s = [] \<longleftrightarrow> whitespaceOnly s"
  by (simp add: trim_def dropWhile_eq_Nil_conv dropWhile_all_iff whitespaceOnly_def list_all_iff)

lemma endsWith_slash: "endsWith s [slash] \<longleftrightarrow> s \<noteq> [] \<and> last s = slash"
proof (cases s rule: rev_cases)
  case Nil
  then show ?thesis by (simp add: endsWith_def)
next
  case (snoc ys y)
  then show ?thesis by (auto simp: endsWith_def)
qed

lemma endsWith_two: "endsWith (u @ [a, b]) (lit ''//'') \<longleftrightarrow> a = slash \<and> b = slash"
  by (auto simp: endsWith_def lit_def slash_def)

lemma strip_Nil_iff: "stripLeadingSlashes r = [] \<longleftrightarrow> slashesOnly r"
  by (simp add: stripLeadingSlashes_def slashesOnly_def dropWhile_eq_Nil_conv list_all_iff)

lemma strip_hd: "stripLeadingSlashes r \<noteq> [] \<Longrightarrow> hd (stripLeadingSlashes r) \<noteq> slash"
  unfolding stripLeadingSlashes_def using hd_dropWhile[of "\<lambda>c. c = slash" r] by simp

lemma strip_suffix: "\<exists>p. r = p @ stripLeadingSlashes r"
  unfolding stripLeadingSlashes_def by (metis takeWhile_dropWhile_id)

lemma exactlyOneLeading_id: "s \<noteq> [] \<Longrightarrow> hd s \<noteq> slash \<Longrightarrow> exactlyOneLeadingSlash s = slash # s"
  by (cases s) (simp_all add: exactlyOneLeadingSlash_def)

section \<open>The rest base\<close>

text \<open>What \<open>normalizeRestBase\<close> computes on a string, in one equation.\<close>

lemma normalizeRestBase_Some:
  "normalizeRestBase (Some r) =
     (if whitespaceOnly r then lit ''/wp-json/wp/v2/''
      else slash # appendSlashIfMissing (stripLeadingSlashes r))"
proof -
  have "r = [] \<Longrightarrow> whitespaceOnly r" by (simp add: whitespaceOnly_def)
  then show ?thesis
    by (auto simp: normalizeRestBase_def Let_def trim_empty_iff endsWith_slash lit_slash
        appendSlashIfMissing_def)
qed

lemma normalizeRestBase_default:
  "normalizeRestBase (Some (lit ''/wp-json/wp/v2/'')) = lit ''/wp-json/wp/v2/''"
  by (simp add: normalizeRestBase_Some whitespaceOnly_def isWhiteSpace_def lit_def
      stripLeadingSlashes_def appendSlashIfMissing_def slash_def)

lemma leading_after_append:
  assumes "\<not> slashesOnly r"
  shows "exactlyOneLeadingSlash (appendSlashIfMissing (stripLeadingSlashes r)) =
         slash # appendSlashIfMissing (stripLeadingSlashes r)"
proof -
  define t where "t = stripLeadingSlashes r"
  have ne: "t \<noteq> []" using assms by (simp add: t_def strip_Nil_iff)
  then have "hd t \<noteq> slash" using strip_hd[of r] by (simp add: t_def)
  with ne have "appendSlashIfMissing t \<noteq> []" "hd (appendSlashIfMissing t) \<noteq> slash"
    by (auto simp: appendSlashIfMissing_def)
  then show ?thesis unfolding t_def[symmetric] by (rule exactlyOneLeading_id)
qed

lemma trailing_agree:
  assumes ns: "\<not> slashesOnly r" and ne: "\<not> endsWith r (lit ''//'')"
  shows "exactlyOneTrailingSlash (stripLeadingSlashes r) = appendSlashIfMissing (stripLeadingSlashes r)"
proof -
  define t where "t = stripLeadingSlashes r"
  have tne: "t \<noteq> []" using ns by (simp add: t_def strip_Nil_iff)
  then have hd: "hd t \<noteq> slash" using strip_hd[of r] by (simp add: t_def)
  obtain p where r: "r = p @ t" using strip_suffix[of r] by (auto simp: t_def)
  obtain u b where t: "t = u @ [b]" using tne by (cases t rule: rev_cases) auto
  show ?thesis
  proof (cases "b = slash")
    case False
    then show ?thesis unfolding t_def[symmetric]
      by (simp add: t exactlyOneTrailingSlash_def appendSlashIfMissing_def)
  next
    case True
    have "u \<noteq> []" using hd True t by auto
    then obtain v a where u: "u = v @ [a]" by (cases u rule: rev_cases) auto
    have "r = (p @ v) @ [a, b]" by (simp add: r t u)
    then have "a \<noteq> slash" using ne True endsWith_two[of "p @ v" a b] by simp
    then show ?thesis unfolding t_def[symmetric]
      by (simp add: t u True exactlyOneTrailingSlash_def appendSlashIfMissing_def)
  qed
qed

text \<open>
  C4, as the code has it. The default is returned for an input that is absent, empty or
  made of white space only. For any other input with a character that is not a slash, the
  result is the input stripped of its leading slashes, with a slash appended when none
  ends it (slashes already at the end all stay), and with exactly one leading slash. When
  such an input does not end with two slashes, that is the result of the specification's
  algorithm, with its exactly one trailing slash.
\<close>

theorem normalizeRestBase_steps:
  "normalizeRestBase None = lit ''/wp-json/wp/v2/'' \<and>
   (whitespaceOnly r \<longrightarrow> normalizeRestBase (Some r) = lit ''/wp-json/wp/v2/'') \<and>
   (\<not> whitespaceOnly r \<and> \<not> slashesOnly r \<longrightarrow>
      normalizeRestBase (Some r) =
        exactlyOneLeadingSlash (appendSlashIfMissing (stripLeadingSlashes r))) \<and>
   (\<not> whitespaceOnly r \<and> \<not> slashesOnly r \<and> \<not> endsWith r (lit ''//'') \<longrightarrow>
      normalizeRestBase (Some r) = normalizeRestBase_reference (Some r))"
proof -
  have a: "normalizeRestBase None = lit ''/wp-json/wp/v2/''"
    by (simp add: normalizeRestBase_def)
  have b: "whitespaceOnly r \<longrightarrow> normalizeRestBase (Some r) = lit ''/wp-json/wp/v2/''"
    by (simp add: normalizeRestBase_Some)
  have c: "\<not> whitespaceOnly r \<and> \<not> slashesOnly r \<longrightarrow>
      normalizeRestBase (Some r) =
        exactlyOneLeadingSlash (appendSlashIfMissing (stripLeadingSlashes r))"
    by (simp add: normalizeRestBase_Some leading_after_append)
  have d: "\<not> whitespaceOnly r \<and> \<not> slashesOnly r \<and> \<not> endsWith r (lit ''//'') \<longrightarrow>
      normalizeRestBase (Some r) = normalizeRestBase_reference (Some r)"
    using c by (auto simp: normalizeRestBase_reference_def trailing_agree)
  from a b c d show ?thesis by blast
qed

theorem normalizeRestBase_steps_witness:
  "whitespaceOnly (lit ''  '') \<and>
   normalizeRestBase (Some (lit ''  '')) = lit ''/wp-json/wp/v2/'' \<and>
   \<not> whitespaceOnly (lit ''//api/v1'') \<and> \<not> slashesOnly (lit ''//api/v1'') \<and>
   \<not> endsWith (lit ''//api/v1'') (lit ''//'') \<and>
   normalizeRestBase (Some (lit ''//api/v1'')) =
     exactlyOneLeadingSlash (appendSlashIfMissing (stripLeadingSlashes (lit ''//api/v1''))) \<and>
   normalizeRestBase (Some (lit ''//api/v1'')) = normalizeRestBase_reference (Some (lit ''//api/v1''))"
proof -
  have h1: "whitespaceOnly (lit ''  '')"
    by (simp add: whitespaceOnly_def isWhiteSpace_def lit_def)
  have h2: "\<not> whitespaceOnly (lit ''//api/v1'')"
    by (simp add: whitespaceOnly_def isWhiteSpace_def lit_def)
  have h3: "\<not> slashesOnly (lit ''//api/v1'')"
    by (simp add: slashesOnly_def slash_def lit_def)
  have h4: "\<not> endsWith (lit ''//api/v1'') (lit ''//'')"
    by (simp add: endsWith_def lit_def)
  show ?thesis
    using h1 h2 h3 h4 normalizeRestBase_steps[of "lit ''  ''"]
      normalizeRestBase_steps[of "lit ''//api/v1''"]
    by blast
qed

text \<open>
  The specification's algorithm and the code part on \<open>a//\<close>: the code keeps both
  slashes at the end and gives \<open>/a//\<close>, the algorithm gives \<open>/a/\<close>.
\<close>

theorem normalizeRestBase_reference_counterexample:
  "normalizeRestBase (Some (lit ''a//'')) = lit ''/a//'' \<and>
   normalizeRestBase_reference (Some (lit ''a//'')) = lit ''/a/'' \<and>
   normalizeRestBase (Some (lit ''a//'')) \<noteq> normalizeRestBase_reference (Some (lit ''a//''))"
  by (simp add: normalizeRestBase_Some normalizeRestBase_reference_def whitespaceOnly_def
      isWhiteSpace_def lit_def stripLeadingSlashes_def appendSlashIfMissing_def slash_def
      exactlyOneLeadingSlash_def exactlyOneTrailingSlash_def)

text \<open>
  Where the input has a character that is not a slash, the result starts with one slash,
  not two, and ends with a slash.
\<close>

lemma normalizeRestBase_shape:
  assumes "\<not> slashesOnly r"
  shows "hd (normalizeRestBase (Some r)) = slash \<and> last (normalizeRestBase (Some r)) = slash \<and>
         \<not> startsWith (normalizeRestBase (Some r)) (lit ''//'')"
proof (cases "whitespaceOnly r")
  case True
  then show ?thesis
    by (simp add: normalizeRestBase_Some lit_def slash_def startsWith_def)
next
  case False
  define t where "t = stripLeadingSlashes r"
  have ne: "t \<noteq> []" using assms by (simp add: t_def strip_Nil_iff)
  then have "hd t \<noteq> slash" using strip_hd[of r] by (simp add: t_def)
  with ne obtain c u where t: "t = c # u" "c \<noteq> slash" by (cases t) auto
  have "startsWith (slash # x # xs) (lit ''//'') \<longleftrightarrow> x = slash" for x xs
    by (auto simp: startsWith_def lit_def slash_def)
  then show ?thesis using False t unfolding normalizeRestBase_Some t_def[symmetric]
    by (auto simp: appendSlashIfMissing_def)
qed

text \<open>
  C5 at the input \<open>/\<close>, a non-empty string: stripping leaves the empty string, the
  trailing-slash step makes it \<open>/\<close>, the prefix makes it \<open>//\<close>. The result starts with
  a run of two slashes.
\<close>

theorem normalizeRestBase_only_slash:
  "lit ''/'' \<noteq> [] \<and>
   normalizeRestBase (Some (lit ''/'')) = lit ''//'' \<and>
   startsWith (normalizeRestBase (Some (lit ''/''))) (lit ''//'')"
  by (simp add: normalizeRestBase_Some whitespaceOnly_def isWhiteSpace_def lit_def
      stripLeadingSlashes_def appendSlashIfMissing_def slash_def startsWith_def)

text \<open>
  C6: the test for \<open>wp-json\<close> decides nothing. On every input, absent or a string,
  \<open>normalizeRestBase\<close> gives what the function without the test gives.
\<close>

theorem normalizeRestBase_simplified_eq:
  "normalizeRestBase rest = normalizeRestBase_simplified rest"
  by (simp add: normalizeRestBase_def normalizeRestBase_simplified_def Let_def split: option.split)

text \<open>
  C10: \<open>normalizeRestBase\<close> is idempotent. Normalizing a result again gives the result,
  for every string and for the absent input.
\<close>

theorem normalizeRestBase_idempotent:
  "normalizeRestBase (Some (normalizeRestBase rest)) = normalizeRestBase rest"
proof (cases rest)
  case None
  then show ?thesis using normalizeRestBase_default by (simp add: normalizeRestBase_def)
next
  case (Some r)
  show ?thesis
  proof (cases "whitespaceOnly r")
    case True
    then show ?thesis using Some normalizeRestBase_default by (simp add: normalizeRestBase_Some)
  next
    case False
    define t where "t = stripLeadingSlashes r"
    define w where "w = appendSlashIfMissing t"
    have res: "normalizeRestBase rest = slash # w"
      using Some False by (simp add: normalizeRestBase_Some t_def w_def)
    have nw: "\<not> whitespaceOnly (slash # w)"
      by (simp add: whitespaceOnly_def slash_not_white)
    have "appendSlashIfMissing (stripLeadingSlashes (slash # w)) = w"
    proof (cases "t = []")
      case True
      then show ?thesis
        by (simp add: w_def appendSlashIfMissing_def stripLeadingSlashes_def)
    next
      case False
      then have h: "hd t \<noteq> slash" using strip_hd[of r] by (simp add: t_def)
      have wne: "w \<noteq> []" and hw: "hd w \<noteq> slash" and lw: "last w = slash"
        using False h by (auto simp: w_def appendSlashIfMissing_def)
      have "stripLeadingSlashes (slash # w) = w"
        using wne hw by (cases w) (simp_all add: stripLeadingSlashes_def)
      then show ?thesis using wne lw by (simp add: appendSlashIfMissing_def)
    qed
    then show ?thesis using res nw by (simp add: normalizeRestBase_Some)
  qed
qed


section \<open>Facts about the store\<close>

text \<open>
  No secret key is the index key, and different ids give different secret keys: the
  metadata array and the credential records never share a key.
\<close>

lemma keys_apart: "SITE_SECRET_PREFIX @ ident \<noteq> SITE_INDEX_KEY"
  by (simp add: SITE_SECRET_PREFIX_def SITE_INDEX_KEY_def lit_def)

lemma secret_keys_inj: "SITE_SECRET_PREFIX @ i = SITE_SECRET_PREFIX @ j \<longleftrightarrow> i = j"
  by simp


lemma withCredentials_credentials: "credentials (withCredentials m c) = c"
  by (simp add: withCredentials_def SiteMetadata.defs SiteProfile.defs)

lemma withCredentials_truncate: "SiteMetadata.truncate (withCredentials m c) = m"
  by (simp add: withCredentials_def SiteMetadata.defs SiteProfile.defs)



lemma loadCredentials_index_item:
  "loadCredentials i (s\<lparr>index_item := x\<rparr>) = loadCredentials i s"
  by (simp add: loadCredentials_def)











lemma getSites_loop_eq:
  "getSites_loop s ms acc =
     acc @ map (\<lambda>m. withCredentials m (the (loadCredentials (SiteMetadata.id m) s)))
              (filter (\<lambda>m. loadCredentials (SiteMetadata.id m) s \<noteq> None) ms)"
  by (induction ms arbitrary: acc) (auto split: option.splits)

lemma loadCredentials_Some_iff:
  "loadCredentials i s = Some c \<longleftrightarrow> secret_items s (SITE_SECRET_PREFIX @ i) = Some (Stringified c)"
proof (cases "secret_items s (SITE_SECRET_PREFIX @ i)")
  case None
  then show ?thesis by (simp add: loadCredentials_def)
next
  case (Some data)
  then show ?thesis by (cases data) (auto simp: loadCredentials_def)
qed










section \<open>Facts about validation\<close>

text \<open>
  A response that is not \<open>ok\<close> makes validation fail, with the message taken from the
  response when that message converts to a string; a fetcher that rejects makes it fail
  with the rejection.
\<close>

lemma validateSiteConnection_not_ok:
  assumes "fetcher (buildApiUrl connection (lit ''users/me''))
             \<lparr>httpMethod = lit ''GET'', Authorization = buildAuthHeader b64 creds,
              Accept = lit ''application/json''\<rparr> = Inr response"
    and "\<not> ok response"
  shows "\<exists>err. fst (validateSiteConnection b64 connection creds fetcher) = Inl err"
    and "ToString (extractErrorMessage response) = Inr msg \<Longrightarrow>
         fst (validateSiteConnection b64 connection creds fetcher) = Inl (Error msg)"
  using assms by (auto simp: validateSiteConnection_def Let_def fetchJson_def split: sum.splits)

lemma validateSiteConnection_rejected:
  assumes "fetcher (buildApiUrl connection (lit ''users/me''))
             \<lparr>httpMethod = lit ''GET'', Authorization = buildAuthHeader b64 creds,
              Accept = lit ''application/json''\<rparr> = Inl err"
  shows "fst (validateSiteConnection b64 connection creds fetcher) = Inl err"
  using assms by (simp add: validateSiteConnection_def Let_def fetchJson_def)

text \<open>
  Once the fetch has given a body, validation fails exactly when the read of \<open>name\<close> or
  its conversion to a string throws, and then with that error.
\<close>

lemma validateSiteConnection_after_fetch:
  assumes "fetchJson b64 (buildApiUrl connection (lit ''users/me'')) creds fetcher = Inr usr"
  shows "fst (validateSiteConnection b64 connection creds fetcher) =
           (case readProperty usr (lit ''name'') of
              Inl err \<Rightarrow> Inl err
            | Inr nm \<Rightarrow>
                (case templateString nm of
                   Inl err \<Rightarrow> Inl err
                 | Inr text \<Rightarrow>
                     Inr \<lparr>ValidatedSite.capabilities = \<lparr>categories = True, tags = True, media = True\<rparr>,
                          user = Some usr\<rparr>))"
  using assms by (simp add: validateSiteConnection_def Let_def split: sum.splits)

section \<open>The worked example, evaluated\<close>

lemma example_base: "normalizeBaseUrl (lit ''https://x.com/'') = lit ''https://x.com''"
  by (simp add: normalizeBaseUrl_def endsWith_def lit_def)

lemma example_rest: "normalizeRestBase (Some (lit ''wp-json/wp/v2'')) = lit ''/wp-json/wp/v2/''"
  by (simp add: normalizeRestBase_Some whitespaceOnly_def isWhiteSpace_def
      stripLeadingSlashes_def appendSlashIfMissing_def slash_def lit_def)

lemma example_url:
  "buildApiUrl \<lparr>baseUrl = lit ''https://x.com'', restBase = Some (lit ''/wp-json/wp/v2/'')\<rparr>
     (lit ''users/me'') = lit ''https://x.com/wp-json/wp/v2/users/me''"
  by (simp add: buildApiUrl_def normalizeBaseUrl_def normalizeRestBase_Some whitespaceOnly_def
      isWhiteSpace_def endsWith_def stripLeadingSlashes_def appendSlashIfMissing_def slash_def
      lit_def)

lemma example_header:
  "buildAuthHeader exampleBase64 (exampleCredentials password) =
     (if password = lit ''b'' then lit ''Basic YTpi'' else lit ''Basic eDp5'')"
  by (simp add: buildAuthHeader_def exampleBase64_def exampleCredentials_def lit_def)

lemma example_header_ne: "lit ''Basic eDp5'' \<noteq> lit ''Basic YTpi''"
  by (simp add: lit_def)

lemma example_wrong_ne: "lit ''wrong'' \<noteq> lit ''b''"
  by (simp add: lit_def)

lemma example_fetch_ok:
  "fetchJson exampleBase64
     (buildApiUrl \<lparr>baseUrl = lit ''https://x.com'', restBase = Some (lit ''/wp-json/wp/v2/'')\<rparr>
        (lit ''users/me''))
     (exampleCredentials (lit ''b'')) exampleFetch = Inr exampleUser"
  by (simp add: fetchJson_def example_url exampleFetch_def example_header)

lemma example_user_name:
  "exampleUser \<noteq> JNull"
  "templateString (optionalProperty exampleUser (lit ''name'')) = Inr (lit ''admin'')"
  by (simp_all add: exampleUser_def lit_def)


lemma example_validate_fails:
  "fst (validateSiteConnection exampleBase64
         \<lparr>baseUrl = lit ''https://x.com'', restBase = Some (lit ''/wp-json/wp/v2/'')\<rparr>
         (exampleCredentials (lit ''wrong'')) exampleFetch)
   = Inl (Error (lit ''Invalid password''))"
proof -
  have m: "lit ''code'' \<noteq> lit ''message''" "lit ''Invalid password'' \<noteq> []"
    by (simp_all add: lit_def)
  then show ?thesis
    by (simp add: validateSiteConnection_def Let_def fetchJson_def example_url exampleFetch_def
      example_header example_header_ne example_wrong_ne extractErrorMessage_def)
qed






section \<open>The claims about the store and the client\<close>

text \<open>
  C1: when the validation call of \<open>upsertSite\<close> fails with an error, \<open>upsertSite\<close>
  fails with that same error and the store it leaves is the store it found: the metadata
  array and every credential record are as before.
\<close>

theorem upsertSite_validation_failure:
  assumes "fst (validateSiteConnection (base64 w)
                  \<lparr>baseUrl = normalizeBaseUrl (baseUrl input),
                   restBase = Some (normalizeRestBase (restBase input))\<rparr>
                  \<lparr>SiteCredentials.username = SiteInput.username input,
                   SiteCredentials.applicationPassword = SiteInput.applicationPassword input,
                   authStrategy = ApplicationPassword\<rparr>
                  (fetch w)) = Inl err"
  shows "upsertSite w input s = (Inl err, s)"
  using assms by (simp add: upsertSite_def Let_def)

theorem upsertSite_validation_failure_witness:
  "upsertSite exampleWorld (exampleInput None (lit ''wrong'')) exampleStorage =
     (Inl (Error (lit ''Invalid password'')), exampleStorage)"
proof -
  have "fst (validateSiteConnection (base64 exampleWorld)
                  \<lparr>baseUrl = normalizeBaseUrl (baseUrl (exampleInput None (lit ''wrong''))),
                   restBase = Some (normalizeRestBase (restBase (exampleInput None (lit ''wrong''))))\<rparr>
                  \<lparr>SiteCredentials.username = SiteInput.username (exampleInput None (lit ''wrong'')),
                   SiteCredentials.applicationPassword = SiteInput.applicationPassword (exampleInput None (lit ''wrong'')),
                   authStrategy = ApplicationPassword\<rparr>
                  (fetch exampleWorld)) = Inl (Error (lit ''Invalid password''))"
    using example_validate_fails
    by (simp add: exampleWorld_def exampleInput_def exampleCredentials_def[symmetric]
        example_base example_rest)
  then show ?thesis by (rule upsertSite_validation_failure)
qed









section \<open>Facts about the listing over any stored text\<close>

lemma metadataObject_read:
  assumes "metadataObject e"
  shows "readProperty e (lit ''id'') = Inr (Some (JString (idOf e)))"
proof -
  from assms have "e \<noteq> JNull" by (auto simp: metadataObject_def)
  moreover from assms have "optionalProperty e (lit ''id'') = Some (JString (idOf e))"
    by (auto simp: metadataObject_def idOf_def split: option.splits json.splits)
  ultimately show ?thesis by (simp add: readProperty_def)
qed

lemma loadCredentials_raw_string:
  "loadCredentials_raw (Some (JString i)) s = Inr (credentialRecord s i)"
proof (cases "s (SITE_SECRET_PREFIX @ i)")
  case None
  then show ?thesis by (simp add: loadCredentials_raw_def credentialRecord_def)
next
  case (Some data)
  then show ?thesis by (cases data) (simp_all add: loadCredentials_raw_def credentialRecord_def)
qed

lemma getSites_raw_loop_eq:
  assumes "list_all metadataObject entries"
  shows "getSites_raw_loop s entries sites =
     Inr (sites @ map (\<lambda>e. withCredentials_raw e (the (credentialRecord s (idOf e))))
                     (filter (listed s) entries))"
  using assms
proof (induction entries arbitrary: sites)
  case Nil
  then show ?case by simp
next
  case (Cons e es)
  then have e: "metadataObject e" and es: "list_all metadataObject es" by simp_all
  show ?case
  proof (cases "credentialRecord s (idOf e)")
    case None
    then show ?thesis
      using Cons.IH[OF es] by (simp add: metadataObject_read[OF e] loadCredentials_raw_string listed_def)
  next
    case (Some v)
    then show ?thesis
      using Cons.IH[OF es] by (simp add: metadataObject_read[OF e] loadCredentials_raw_string listed_def)
  qed
qed

lemma example_keys:
  "lit ''s1'' \<noteq> lit ''s2''" "lit ''s1'' \<noteq> lit ''s3''" "lit ''s2'' \<noteq> lit ''s3''"
  "lit ''s2'' \<noteq> lit ''s1''" "lit ''s3'' \<noteq> lit ''s1''" "lit ''s3'' \<noteq> lit ''s2''"
  by (simp_all add: lit_def)

lemma example_entry: "metadataObject (exampleEntry i)" "idOf (exampleEntry i) = i"
  by (simp_all add: metadataObject_def idOf_def exampleEntry_def)

lemma example_raw_index:
  "loadSiteMetadata_raw exampleRawStorage =
     JArray [exampleEntry (lit ''s1''), exampleEntry (lit ''s2''), exampleEntry (lit ''s3'')]"
  using keys_apart[of "lit ''s1''"] keys_apart[of "lit ''s3''"]
  by (simp add: loadSiteMetadata_raw_def exampleRawStorage_def eq_commute[of SITE_INDEX_KEY])

lemma example_raw_records:
  "credentialRecord exampleRawStorage (lit ''s1'') = Some (JObject [(lit ''username'', JString (lit ''a''))])"
  "credentialRecord exampleRawStorage (lit ''s2'') = None"
  "credentialRecord exampleRawStorage (lit ''s3'') = Some JNull"
  using keys_apart[of "lit ''s2''"]
  by (simp_all add: credentialRecord_def exampleRawStorage_def example_keys)

text \<open>
  On a store of the first model, seen as a store of texts, the listing over any text gives
  the listing of the first model, each profile written as JSON: the first model is the
  second one on the texts that the program writes itself.
\<close>

lemma falsy_map: "falsy (map_json_text f d) = falsy d"
  by (cases d) simp_all

lemma loadSiteMetadata_raw_of:
  "loadSiteMetadata_raw (raw_of s) = JArray (map json_of_metadata (loadSiteMetadata s))"
proof (cases "index_item s")
  case None
  then show ?thesis by (simp add: loadSiteMetadata_raw_def raw_of_def loadSiteMetadata_def)
next
  case (Some data)
  then show ?thesis
    by (cases data) (simp_all add: loadSiteMetadata_raw_def raw_of_def loadSiteMetadata_def)
qed

lemma json_of_metadata_object:
  "metadataObject (json_of_metadata m)" "idOf (json_of_metadata m) = SiteMetadata.id m"
  by (simp_all add: metadataObject_def idOf_def json_of_metadata_def)

lemma credentialRecord_raw_of:
  "credentialRecord (raw_of s) i = map_option json_of_credentials (loadCredentials i s)"
proof (cases "secret_items s (SITE_SECRET_PREFIX @ i)")
  case None
  then show ?thesis
    by (simp add: credentialRecord_def raw_of_def keys_apart loadCredentials_def)
next
  case (Some data)
  then show ?thesis
    by (cases data) (simp_all add: credentialRecord_def raw_of_def keys_apart loadCredentials_def)
qed

lemma json_of_credentials_truthy: "truthy (json_of_credentials c)"
  by (simp add: json_of_credentials_def)

lemma json_of_profile_withCredentials:
  "json_of_profile (withCredentials m c) = withCredentials_raw (json_of_metadata m) (json_of_credentials c)"
  by (simp add: json_of_profile_def withCredentials_truncate withCredentials_credentials)

lemma listed_raw_of:
  "listed (raw_of s) (json_of_metadata m) \<longleftrightarrow> loadCredentials (SiteMetadata.id m) s \<noteq> None"
  by (cases "loadCredentials (SiteMetadata.id m) s")
     (simp_all add: listed_def credentialRecord_raw_of json_of_metadata_object json_of_credentials_truthy)

lemma getSites_raw_typed:
  "getSites_raw (raw_of s) = Inr (map json_of_profile (getSites s))"
proof -
  have "list_all metadataObject (map json_of_metadata (loadSiteMetadata s))"
    by (simp add: list_all_iff json_of_metadata_object)
  then have "getSites_raw (raw_of s) =
     Inr (map (\<lambda>e. withCredentials_raw e (the (credentialRecord (raw_of s) (idOf e))))
              (filter (listed (raw_of s)) (map json_of_metadata (loadSiteMetadata s))))"
    by (simp add: getSites_raw_def loadSiteMetadata_raw_of getSites_raw_loop_eq)
  also have "\<dots> = Inr (map json_of_profile (getSites s))"
    by (auto simp: getSites_def getSites_loop_eq filter_map comp_def listed_raw_of
        json_of_metadata_object credentialRecord_raw_of json_of_profile_withCredentials
        intro!: map_cong)
  finally show ?thesis .
qed


section \<open>The claims about the listing and about validation\<close>

text \<open>
  C3, as the code has it. Take any store whose index text is absent, empty, unparsable,
  or parses to an array of objects that each have a string \<open>id\<close>. The listing is then, in
  order, the entries whose paired credential record exists, parses as JSON and parses to
  a truthy value, each with that value as its \<open>credentials\<close>. An entry whose record is
  missing, unparsable, or parses to \<open>null\<close>, \<open>false\<close>, \<open>0\<close> or the empty string is left
  out, and nothing is thrown.
\<close>

theorem getSites_exactly_paired:
  assumes "loadSiteMetadata_raw s = JArray entries"
    and "list_all metadataObject entries"
  shows "getSites_raw s =
     Inr (map (\<lambda>e. withCredentials_raw e (the (credentialRecord s (idOf e))))
              (filter (listed s) entries))"
  using assms by (simp add: getSites_raw_def getSites_raw_loop_eq)


theorem getSites_exactly_paired_witness:
  "loadSiteMetadata_raw exampleRawStorage =
     JArray [exampleEntry (lit ''s1''), exampleEntry (lit ''s2''), exampleEntry (lit ''s3'')] \<and>
   list_all metadataObject [exampleEntry (lit ''s1''), exampleEntry (lit ''s2''), exampleEntry (lit ''s3'')] \<and>
   credentialRecord exampleRawStorage (lit ''s2'') = None \<and>
   credentialRecord exampleRawStorage (lit ''s3'') = Some JNull \<and>
   getSites_raw exampleRawStorage =
     Inr [withCredentials_raw (exampleEntry (lit ''s1'')) (JObject [(lit ''username'', JString (lit ''a''))])]"
proof -
  have h: "list_all metadataObject [exampleEntry (lit ''s1''), exampleEntry (lit ''s2''), exampleEntry (lit ''s3'')]"
    by (simp add: example_entry)
  from getSites_exactly_paired[OF example_raw_index h] example_raw_index h show ?thesis
    by (simp add: listed_def example_entry example_raw_records)
qed


text \<open>
  The listing on two stores outside that. In the first, the one entry \<open>s3\<close> has a
  credential record that exists and parses, to \<open>null\<close>, and the listing is empty. In the
  second, the index text parses, to \<open>null\<close>, and the listing throws.
\<close>

theorem getSites_null_record_counterexample:
  "loadSiteMetadata_raw nullRecordStorage = JArray [exampleEntry (lit ''s3'')] \<and>
   nullRecordStorage (SITE_SECRET_PREFIX @ lit ''s3'') = Some (Stringified JNull) \<and>
   getSites_raw nullRecordStorage = Inr [] \<and>
   nullIndexStorage SITE_INDEX_KEY = Some (Stringified JNull) \<and>
   getSites_raw nullIndexStorage = Inl (Error (lit ''metadata is not iterable''))"
proof -
  have a: "loadSiteMetadata_raw nullRecordStorage = JArray [exampleEntry (lit ''s3'')]"
    using keys_apart[of "lit ''s3''"]
    by (simp add: loadSiteMetadata_raw_def nullRecordStorage_def eq_commute[of SITE_INDEX_KEY])
  have b: "nullRecordStorage (SITE_SECRET_PREFIX @ lit ''s3'') = Some (Stringified JNull)"
    by (simp add: nullRecordStorage_def)
  have c: "getSites_raw nullRecordStorage = Inr []"
    using b by (simp add: getSites_raw_def a exampleEntry_def readProperty_def loadCredentials_raw_def)
  have d: "nullIndexStorage SITE_INDEX_KEY = Some (Stringified JNull)"
    by (simp add: nullIndexStorage_def)
  have e: "getSites_raw nullIndexStorage = Inl (Error (lit ''metadata is not iterable''))"
    by (simp add: getSites_raw_def loadSiteMetadata_raw_def d)
  from a b c d e show ?thesis by simp
qed

text \<open>
  C9, as the code has it. When the fetch of \<open>users/me\<close> succeeds with a body that is not
  \<open>null\<close> and whose \<open>name\<close>, present or not, converts to a string,
  \<open>validateSiteConnection\<close> returns that body as the user with the capabilities all
  true. What the fetcher would answer at any other address does not matter: a fetcher that
  agrees with it at \<open>users/me\<close> gives the same result and the same toast.
\<close>

theorem validateSiteConnection_static_capabilities:
  assumes "fetchJson b64 (buildApiUrl connection (lit ''users/me'')) creds fetcher = Inr usr"
    and "usr \<noteq> JNull"
    and "templateString (optionalProperty usr (lit ''name'')) = Inr text"
  shows "fst (validateSiteConnection b64 connection creds fetcher) =
           Inr \<lparr>ValidatedSite.capabilities = \<lparr>categories = True, tags = True, media = True\<rparr>,
                user = Some usr\<rparr> \<and>
         (fetcher' (buildApiUrl connection (lit ''users/me'')) =
            fetcher (buildApiUrl connection (lit ''users/me'')) \<longrightarrow>
          validateSiteConnection b64 connection creds fetcher' =
            validateSiteConnection b64 connection creds fetcher)"
proof -
  have a: "fst (validateSiteConnection b64 connection creds fetcher) =
           Inr \<lparr>ValidatedSite.capabilities = \<lparr>categories = True, tags = True, media = True\<rparr>,
                user = Some usr\<rparr>"
    using assms(2,3) by (simp add: validateSiteConnection_after_fetch[OF assms(1)] readProperty_def)
  have b: "fetcher' (buildApiUrl connection (lit ''users/me'')) =
            fetcher (buildApiUrl connection (lit ''users/me'')) \<longrightarrow>
          validateSiteConnection b64 connection creds fetcher' =
            validateSiteConnection b64 connection creds fetcher"
    by (simp add: validateSiteConnection_def Let_def fetchJson_def)
  from a b show ?thesis by simp
qed

theorem validateSiteConnection_static_capabilities_witness:
  "fetchJson exampleBase64
     (buildApiUrl \<lparr>baseUrl = lit ''https://x.com'', restBase = Some (lit ''/wp-json/wp/v2/'')\<rparr>
        (lit ''users/me''))
     (exampleCredentials (lit ''b'')) exampleFetch = Inr exampleUser \<and>
   exampleUser \<noteq> JNull \<and>
   templateString (optionalProperty exampleUser (lit ''name'')) = Inr (lit ''admin'') \<and>
   fst (validateSiteConnection exampleBase64
          \<lparr>baseUrl = lit ''https://x.com'', restBase = Some (lit ''/wp-json/wp/v2/'')\<rparr>
          (exampleCredentials (lit ''b'')) exampleFetch) =
     Inr \<lparr>ValidatedSite.capabilities = \<lparr>categories = True, tags = True, media = True\<rparr>,
          user = Some exampleUser\<rparr>"
  using example_fetch_ok example_user_name
    validateSiteConnection_static_capabilities[OF example_fetch_ok example_user_name, of exampleFetch]
  by simp

text \<open>
  A fetch that succeeds with the body \<open>null\<close>: the read of \<open>user.name\<close> throws inside
  the \<open>try\<close> block and the error is thrown again, so nothing is returned.
\<close>

theorem validateSiteConnection_null_body_counterexample:
  "fetchJson exampleBase64
     (buildApiUrl \<lparr>baseUrl = lit ''https://x.com'', restBase = Some (lit ''/wp-json/wp/v2/'')\<rparr>
        (lit ''users/me''))
     (exampleCredentials (lit ''b'')) nullFetch = Inr JNull \<and>
   fst (validateSiteConnection exampleBase64
          \<lparr>baseUrl = lit ''https://x.com'', restBase = Some (lit ''/wp-json/wp/v2/'')\<rparr>
          (exampleCredentials (lit ''b'')) nullFetch) =
     Inl (Error (lit ''Cannot read properties of null (reading '' @ [0x27] @ lit ''name'' @ [0x27] @ lit '')''))"
proof -
  have f: "fetchJson exampleBase64
     (buildApiUrl \<lparr>baseUrl = lit ''https://x.com'', restBase = Some (lit ''/wp-json/wp/v2/'')\<rparr>
        (lit ''users/me''))
     (exampleCredentials (lit ''b'')) nullFetch = Inr JNull"
    by (simp add: fetchJson_def nullFetch_def)
  from f validateSiteConnection_after_fetch[OF f] show ?thesis
    by (simp add: readProperty_def)
qed

text \<open>
  A fetch that succeeds with a user whose \<open>name\<close> is an object with a \<open>toString\<close>
  property: the template literal cannot convert it, and validation fails as well.
\<close>

lemma validateSiteConnection_name_object:
  "fetchJson exampleBase64
     (buildApiUrl \<lparr>baseUrl = lit ''https://x.com'', restBase = Some (lit ''/wp-json/wp/v2/'')\<rparr>
        (lit ''users/me''))
     (exampleCredentials (lit ''b'')) namelessFetch =
     Inr (JObject [(lit ''name'', JObject [(lit ''toString'', JNumber (lit ''1''))])]) \<and>
   fst (validateSiteConnection exampleBase64
          \<lparr>baseUrl = lit ''https://x.com'', restBase = Some (lit ''/wp-json/wp/v2/'')\<rparr>
          (exampleCredentials (lit ''b'')) namelessFetch) =
     Inl (Error (lit ''Cannot convert object to primitive value''))"
proof -
  have f: "fetchJson exampleBase64
     (buildApiUrl \<lparr>baseUrl = lit ''https://x.com'', restBase = Some (lit ''/wp-json/wp/v2/'')\<rparr>
        (lit ''users/me''))
     (exampleCredentials (lit ''b'')) namelessFetch =
     Inr (JObject [(lit ''name'', JObject [(lit ''toString'', JNumber (lit ''1''))])])"
    by (simp add: fetchJson_def namelessFetch_def)
  from f validateSiteConnection_after_fetch[OF f] show ?thesis
    by (simp add: readProperty_def)
qed

end
